theory Spec2Isabelle
  imports Main
begin

section \<open>The hop command line of half\_orm\_dev (hop.py)\<close>

text \<open>
  The module builds one \<open>Hop\<close> object when it is imported, lets it register the
  commands that are available in the current directory on the click group \<open>main\<close>,
  and leaves the dispatch to click. The repository itself is the class
  \<open>half_orm_dev.repo.Repo\<close>, which lives in another module: hop.py reads four of
  its properties and calls eight of its methods, so the model takes what a \<open>Repo\<close>
  object shows and how its methods end as its input.
\<close>

subsection \<open>Python values, exceptions and results\<close>

text \<open>The values the attribute \<open>__command\<close> holds: \<open>None\<close> or a string.\<close>

datatype pyval = PyNone | PyStr string

text \<open>
  The exceptions that may leave a command: \<open>SystemExit\<close> with no code
  (\<open>sys.exit()\<close>) or an integer code, \<open>SystemExit\<close> with any other object as
  its code, click's \<open>Exit\<close> with its code, a \<open>ClickException\<close> with its attribute
  \<open>exit_code\<close>, click's \<open>UsageError\<close> for a subcommand the group does not know,
  the \<open>KeyError\<close> of a dictionary lookup, and any other exception, by the name of
  its class.
\<close>

datatype pyexc =
    SystemExit "int option"
  | SystemExit_obj string
  | Click_Exit int
  | ClickException int
  | KeyError string
  | UsageError string
  | Exception string

text \<open>How a call ends: it returns, or an exception propagates from it.\<close>

datatype result = Return | Raise pyexc

subsection \<open>The Repo object as hop.py sees it\<close>

text \<open>The choices of the option \<open>--level\<close> of \<open>prepare\<close>.\<close>

datatype level = Patch | Minor | Major

text \<open>The methods of \<open>Repo\<close> called by the commands, with their arguments.\<close>

datatype repo_call =
    Init string bool
  | Prepare_release "level option" "string option"
  | Apply_release
  | Undo_release bool
  | Upgrade_prod
  | Restore_to string
  | Commit_release bool
  | Sync_package

text \<open>
  The properties \<open>checked\<close>, \<open>devel\<close>, \<open>production\<close> and \<open>state\<close> of the
  \<open>Repo\<close> object, and, for each method call, how it ends (\<open>behaviour\<close>): the bodies
  of the methods are not part of hop.py.
\<close>

record repo =
  checked :: bool
  devel :: bool
  production :: bool
  state :: string
  behaviour :: "repo_call \<Rightarrow> result"

subsection \<open>The class Hop\<close>

text \<open>
  The class attributes \<open>__available_cmds = []\<close> and \<open>__command = None\<close>: they belong
  to the class, so every \<open>Hop\<close> object of the process shares them.
\<close>

record Hop_class =
  cls_available_cmds :: "string list"
  cls_command :: pyval

definition Hop_class0 :: Hop_class where
  "Hop_class0 = \<lparr>cls_available_cmds = [], cls_command = PyNone\<rparr>"

text \<open>
  A \<open>Hop\<close> object: its \<open>__repo\<close>, and the entry \<open>__command\<close> of its own
  dictionary, which exists only once a command has assigned \<open>self.__command\<close>.
  \<open>calls\<close> is the trace of the \<open>Repo\<close> methods the object has called, in order.
\<close>

record Hop =
  hop_repo :: repo
  inst_command :: "pyval option"
  calls :: "repo_call list"

definition repo_checked :: "Hop \<Rightarrow> bool" where
  "repo_checked h = checked (hop_repo h)"

definition Hop_state :: "Hop \<Rightarrow> string" where
  "Hop_state h = state (hop_repo h)"

text \<open>
  The property \<open>command\<close> reads \<open>self.__command\<close>: the entry of the object when
  there is one, the class attribute otherwise.
\<close>

definition command :: "Hop_class \<Rightarrow> Hop \<Rightarrow> pyval" where
  "command c h = (case inst_command h of Some v \<Rightarrow> v | None \<Rightarrow> cls_command c)"

text \<open>
  \<open>Hop.__init__\<close>: builds the object around the \<open>Repo\<close> and assigns the class
  attribute \<open>Hop.__available_cmds\<close>.
\<close>

definition Hop_init :: "Hop_class \<Rightarrow> repo \<Rightarrow> Hop_class \<times> Hop" where
  "Hop_init c r =
     (let h = \<lparr>hop_repo = r, inst_command = None, calls = []\<rparr> in
      if \<not> repo_checked h then
        (c\<lparr>cls_available_cmds := [''new'']\<rparr>, h)
      else if \<not> devel (hop_repo h) then
        (c\<lparr>cls_available_cmds := [''sync-package'']\<rparr>, h)
      else if production (hop_repo h) then
        (c\<lparr>cls_available_cmds := [''upgrade'', ''restore'']\<rparr>, h)
      else
        (c\<lparr>cls_available_cmds := [''prepare'', ''apply'', ''release'', ''undo'']\<rparr>, h))"

subsection \<open>The commands\<close>

text \<open>A call of a method of \<open>self.__repo\<close>: it is recorded, and ends as the repo says.\<close>

definition repo_call :: "Hop \<Rightarrow> repo_call \<Rightarrow> Hop \<times> result" where
  "repo_call h c = (h\<lparr>calls := calls h @ [c]\<rparr>, behaviour (hop_repo h) c)"

definition new :: "Hop \<Rightarrow> string \<Rightarrow> bool \<Rightarrow> Hop \<times> result" where
  "new h package_name dev = repo_call h (Init package_name dev)"

text \<open>\<open>prepare\<close> ends with \<open>sys.exit()\<close>, reached when \<open>prepare_release\<close> returns.\<close>

definition prepare :: "Hop \<Rightarrow> level option \<Rightarrow> string option \<Rightarrow> Hop \<times> result" where
  "prepare h lvl message =
     (case repo_call (h\<lparr>inst_command := Some (PyStr ''prepare'')\<rparr>) (Prepare_release lvl message) of
        (h', Raise e) \<Rightarrow> (h', Raise e)
      | (h', Return) \<Rightarrow> (h', Raise (SystemExit None)))"

definition apply_cmd :: "Hop \<Rightarrow> Hop \<times> result" where
  "apply_cmd h = repo_call (h\<lparr>inst_command := Some (PyStr ''apply'')\<rparr>) Apply_release"

definition undo :: "Hop \<Rightarrow> bool \<Rightarrow> Hop \<times> result" where
  "undo h database_only =
     repo_call (h\<lparr>inst_command := Some (PyStr ''undo'')\<rparr>) (Undo_release database_only)"

definition upgrade :: "Hop \<Rightarrow> Hop \<times> result" where
  "upgrade h = repo_call (h\<lparr>inst_command := Some (PyStr ''upgrade_prod'')\<rparr>) Upgrade_prod"

definition restore :: "Hop \<Rightarrow> string \<Rightarrow> Hop \<times> result" where
  "restore h rel = repo_call h (Restore_to rel)"

definition release :: "Hop \<Rightarrow> bool \<Rightarrow> Hop \<times> result" where
  "release h push = repo_call h (Commit_release push)"

definition sync_package :: "Hop \<Rightarrow> Hop \<times> result" where
  "sync_package h = repo_call h Sync_package"

subsection \<open>Registering the commands on the click group\<close>

text \<open>The eight click commands built by \<open>add_commands\<close>.\<close>

datatype cmd =
    New | Prepare | Apply | Undo | Release | Sync_package_cmd | Upgrade | Restore

text \<open>The dictionary \<open>cmds\<close> of \<open>add_commands\<close>.\<close>

definition cmds :: "string \<rightharpoonup> cmd" where
  "cmds = map_of
     [(''new'', New),
      (''prepare'', Prepare),
      (''apply'', Apply),
      (''undo'', Undo),
      (''release'', Release),
      (''sync-package'', Sync_package_cmd),
      (''upgrade'', Upgrade),
      (''restore'', Restore)]"

text \<open>
  \<open>@click.command()\<close> is used without a name, so click names each command after
  its function, with \<open>_\<close> replaced by \<open>-\<close>.
\<close>

fun click_name :: "cmd \<Rightarrow> string" where
  "click_name New = ''new''"
| "click_name Prepare = ''prepare''"
| "click_name Apply = ''apply''"
| "click_name Undo = ''undo''"
| "click_name Release = ''release''"
| "click_name Sync_package_cmd = ''sync-package''"
| "click_name Upgrade = ''upgrade''"
| "click_name Restore = ''restore''"

text \<open>
  A click group is the dictionary of its commands, by name; \<open>add_command\<close> stores
  the command under its own name.
\<close>

type_synonym click_group = "string \<rightharpoonup> cmd"

definition add_command :: "click_group \<Rightarrow> cmd \<Rightarrow> click_group" where
  "add_command g f = g(click_name f \<mapsto> f)"

text \<open>
  The loop \<open>for cmd in self.__available_cmds: click_main.add_command(cmds[cmd])\<close>;
  \<open>cmds[cmd]\<close> raises \<open>KeyError\<close> for a name that is not a key.
\<close>

fun add_commands_loop :: "string list \<Rightarrow> click_group \<Rightarrow> pyexc + click_group" where
  "add_commands_loop [] g = Inr g"
| "add_commands_loop (c # cs) g =
     (case cmds c of
        None \<Rightarrow> Inl (KeyError c)
      | Some f \<Rightarrow> add_commands_loop cs (add_command g f))"

text \<open>\<open>self.__available_cmds\<close> is read from the class: the object has no such entry.\<close>

definition add_commands :: "Hop_class \<Rightarrow> Hop \<Rightarrow> click_group \<Rightarrow> pyexc + click_group" where
  "add_commands c h click_main = add_commands_loop (cls_available_cmds c) click_main"

subsection \<open>The group callback and the dispatch\<close>

text \<open>What the process writes: \<open>click.echo\<close> and \<open>print\<close>.\<close>

datatype printed = Echo string | Print string

text \<open>
  The text printed outside a repository. \<open>utils.Color.bold\<close> belongs to half\_orm and
  is a parameter here.
\<close>

definition not_in_repo :: "(string \<Rightarrow> string) \<Rightarrow> string" where
  "not_in_repo bold =
     [CHR 0x0A] @ ''Not in a hop repository.'' @ [CHR 0x0A] @
     ''Try '' @ bold ''hop new [--devel] <package name>'' @ '' or change directory.'' @ [CHR 0x0A]"

text \<open>
  The callback \<open>main(ctx)\<close> of the group; \<open>sub\<close> is \<open>ctx.invoked_subcommand\<close>,
  \<open>None\<close> when the command line has no subcommand.
\<close>

definition main :: "(string \<Rightarrow> string) \<Rightarrow> Hop \<Rightarrow> string option \<Rightarrow> printed list" where
  "main bold h sub =
     (if repo_checked h \<and> sub = None then [Echo (Hop_state h)]
      else if \<not> repo_checked h \<and> sub \<noteq> Some ''new'' then
        [Echo (Hop_state h), Print (not_in_repo bold)]
      else [])"

text \<open>The parsed options and arguments of a subcommand.\<close>

record cli_args =
  package_name :: string
  devel_flag :: bool
  level_opt :: "level option"
  message_opt :: "string option"
  database_only :: bool
  release_arg :: string
  push :: bool

text \<open>Running the callback of a registered command on its parsed arguments.\<close>

fun invoke :: "cmd \<Rightarrow> Hop \<Rightarrow> cli_args \<Rightarrow> Hop \<times> result" where
  "invoke New h a = new h (package_name a) (devel_flag a)"
| "invoke Prepare h a = prepare h (level_opt a) (message_opt a)"
| "invoke Apply h a = apply_cmd h"
| "invoke Undo h a = undo h (database_only a)"
| "invoke Release h a = release h (push a)"
| "invoke Sync_package_cmd h a = sync_package h"
| "invoke Upgrade h a = upgrade h"
| "invoke Restore h a = restore h (release_arg a)"

text \<open>
  The group is declared with \<open>invoke_without_command=True\<close>: with no subcommand
  click runs the callback alone. With a subcommand it first resolves the name in the
  group, failing with \<open>UsageError\<close> before anything runs when the name is unknown;
  then it runs the callback of the group and the command.
\<close>

definition click_run ::
  "(string \<Rightarrow> string) \<Rightarrow> click_group \<Rightarrow> Hop \<Rightarrow> (string \<times> cli_args) option
     \<Rightarrow> Hop \<times> printed list \<times> result" where
  "click_run bold g h line =
     (case line of
        None \<Rightarrow> (h, main bold h None, Return)
      | Some (name, a) \<Rightarrow>
          (case g name of
             None \<Rightarrow> (h, [], Raise (UsageError name))
           | Some f \<Rightarrow>
               (case invoke f h a of (h', r) \<Rightarrow> (h', main bold h (Some name), r))))"

text \<open>
  The status of a process that ends with \<open>sys.exit(n)\<close>, on a POSIX system whose C
  \<open>long\<close> has 64 bits: the interpreter converts \<open>n\<close> to a \<open>long\<close>, taking \<open>-1\<close>
  when it does not fit, and the system keeps the low eight bits.
\<close>

definition exit_status :: "int \<Rightarrow> int" where
  "exit_status n = (if - (2 ^ 63) \<le> n \<and> n < 2 ^ 63 then n mod 256 else 255)"

text \<open>
  The exit code of the process. When the command returns, click ends the run with
  \<open>sys.exit(0)\<close>. click turns its own \<open>Exit\<close> and every \<open>ClickException\<close> into
  \<open>sys.exit\<close> of the code they carry, which is 2 for a \<open>UsageError\<close>.
  \<open>SystemExit\<close> passes through click: no code means 0, an integer is the status
  asked for, any other object is printed and gives 1. The interpreter ends with
  code 1 on any other exception.
\<close>

fun exit_code :: "result \<Rightarrow> int" where
  "exit_code Return = 0"
| "exit_code (Raise (SystemExit None)) = 0"
| "exit_code (Raise (SystemExit (Some n))) = exit_status n"
| "exit_code (Raise (SystemExit_obj s)) = 1"
| "exit_code (Raise (Click_Exit n)) = exit_status n"
| "exit_code (Raise (ClickException n)) = exit_status n"
| "exit_code (Raise (UsageError m)) = 2"
| "exit_code (Raise (KeyError k)) = 1"
| "exit_code (Raise (Exception e)) = 1"

text \<open>
  One run of the program on the command line that click is given: the module creates
  \<open>hop = Hop()\<close>, calls \<open>hop.add_commands(main)\<close> on the empty group, and click
  dispatches the command line. The result is the final object, the output and the
  exit code.
\<close>

definition hop_run ::
  "(string \<Rightarrow> string) \<Rightarrow> repo \<Rightarrow> (string \<times> cli_args) option \<Rightarrow> Hop \<times> printed list \<times> int" where
  "hop_run bold r line =
     (case Hop_init Hop_class0 r of (c, h) \<Rightarrow>
        (case add_commands c h Map.empty of
           Inl e \<Rightarrow> (h, [], exit_code (Raise e))
         | Inr g \<Rightarrow>
             (case click_run bold g h line of (h', out, r') \<Rightarrow> (h', out, exit_code r'))))"

text \<open>
  The two ways the group is called. The \<open>hop\<close> command of the package calls
  \<open>main()\<close>, and click reads the command line of the process. The last line of the
  module, for the module run as a script, calls \<open>main({})\<close>: click takes the
  dictionary as the explicit list of arguments, which is empty, so that entry never
  sees a subcommand.
\<close>

datatype entry = Hop_command | Script

definition hop_process ::
  "(string \<Rightarrow> string) \<Rightarrow> repo \<Rightarrow> entry \<Rightarrow> (string \<times> cli_args) option
     \<Rightarrow> Hop \<times> printed list \<times> int" where
  "hop_process bold r e line =
     hop_run bold r (case e of Hop_command \<Rightarrow> line | Script \<Rightarrow> None)"

text \<open>The names registered on the group by a run in a given repository.\<close>

definition offered :: "repo \<Rightarrow> pyexc + string set" where
  "offered r =
     (case Hop_init Hop_class0 r of (c, h) \<Rightarrow>
        (case add_commands c h Map.empty of Inl e \<Rightarrow> Inl e | Inr g \<Rightarrow> Inr (dom g)))"

subsection \<open>Derived notions and example inputs\<close>

text \<open>Whether a name is registered on the group by a run in the repository.\<close>

definition is_offered :: "repo \<Rightarrow> string \<Rightarrow> bool" where
  "is_offered r n = (case offered r of Inl e \<Rightarrow> False | Inr S \<Rightarrow> n \<in> S)"

text \<open>The method of \<open>Repo\<close> that the body of each command calls, with its arguments.\<close>

fun repo_method :: "cmd \<Rightarrow> cli_args \<Rightarrow> repo_call" where
  "repo_method New a = Init (package_name a) (devel_flag a)"
| "repo_method Prepare a = Prepare_release (level_opt a) (message_opt a)"
| "repo_method Apply a = Apply_release"
| "repo_method Undo a = Undo_release (database_only a)"
| "repo_method Release a = Commit_release (push a)"
| "repo_method Sync_package_cmd a = Sync_package"
| "repo_method Upgrade a = Upgrade_prod"
| "repo_method Restore a = Restore_to (release_arg a)"

text \<open>
  Example inputs: parsed arguments, and a repository whose methods all return, with
  the three flags as parameters.
\<close>

definition example_args :: cli_args where
  "example_args = \<lparr>package_name = ''demo'', devel_flag = True, level_opt = Some Minor,
     message_opt = None, database_only = False, release_arg = ''1.0.0'', push = False\<rparr>"

definition example_repo :: "bool \<Rightarrow> bool \<Rightarrow> bool \<Rightarrow> repo" where
  "example_repo ch dv pr = \<lparr>checked = ch, devel = dv, production = pr, state = ''[hop] demo'',
     behaviour = (\<lambda>c. Return)\<rparr>"



section \<open>Properties\<close>

subsection \<open>Auxiliary facts\<close>

lemma available_cases:
  "cls_available_cmds (fst (Hop_init c r)) =
     (if \<not> checked r then [''new'']
      else if \<not> devel r then [''sync-package'']
      else if production r then [''upgrade'', ''restore'']
      else [''prepare'', ''apply'', ''release'', ''undo''])"
  by (simp add: Hop_init_def repo_checked_def Let_def)

lemma Hop_init_snd: "snd (Hop_init c r) = \<lparr>hop_repo = r, inst_command = None, calls = []\<rparr>"
  by (simp add: Hop_init_def Let_def)


lemma Hop_init_fst:
  "fst (Hop_init c r) = c\<lparr>cls_available_cmds := cls_available_cmds (fst (Hop_init c r))\<rparr>"
  by (simp add: Hop_init_def Let_def)

lemma add_commands_init:
  "add_commands (fst (Hop_init c r)) h Map.empty =
     Inr (if \<not> checked r then [''new'' \<mapsto> New]
      else if \<not> devel r then [''sync-package'' \<mapsto> Sync_package_cmd]
      else if production r then [''upgrade'' \<mapsto> Upgrade, ''restore'' \<mapsto> Restore]
      else [''prepare'' \<mapsto> Prepare, ''apply'' \<mapsto> Apply, ''release'' \<mapsto> Release, ''undo'' \<mapsto> Undo])"
  by (simp add: add_commands_def available_cases cmds_def add_command_def)

lemma offered_eq: "offered r = Inr (set (cls_available_cmds (fst (Hop_init Hop_class0 r))))"
  unfolding offered_def
  by (auto simp: split_beta add_commands_init available_cases)

lemma registered_lookup:
  "add_commands (fst (Hop_init c r)) h Map.empty = Inr g \<Longrightarrow>
   g n = (if n \<in> set (cls_available_cmds (fst (Hop_init c r))) then cmds n else None)"
  by (auto simp: add_commands_init available_cases cmds_def split: if_splits)


lemma is_offered_iff:
  "is_offered r n \<longleftrightarrow> n \<in> set (cls_available_cmds (fst (Hop_init Hop_class0 r)))"
  by (simp add: is_offered_def offered_eq)


lemma invoke_result:
  "snd (invoke f h a) =
     (if f = Prepare \<and> behaviour (hop_repo h) (repo_method f a) = Return
      then Raise (SystemExit None)
      else behaviour (hop_repo h) (repo_method f a))"
  by (cases f)
    (simp_all add: new_def prepare_def apply_cmd_def undo_def release_def sync_package_def
      upgrade_def restore_def repo_call_def split: result.split)

lemma hop_run_unfold:
  "hop_run bold r line =
     (case line of
        None \<Rightarrow> (snd (Hop_init Hop_class0 r), main bold (snd (Hop_init Hop_class0 r)) None, 0)
      | Some (name, a) \<Rightarrow>
          if name \<in> set (cls_available_cmds (fst (Hop_init Hop_class0 r))) then
            (case cmds name of
               None \<Rightarrow> (snd (Hop_init Hop_class0 r), [], 2)
             | Some f \<Rightarrow>
                 (fst (invoke f (snd (Hop_init Hop_class0 r)) a),
                  main bold (snd (Hop_init Hop_class0 r)) (Some name),
                  exit_code (snd (invoke f (snd (Hop_init Hop_class0 r)) a))))
          else (snd (Hop_init Hop_class0 r), [], 2))"
proof -
  obtain c h where ch: "Hop_init Hop_class0 r = (c, h)"
    by (cases "Hop_init Hop_class0 r")
  then have c: "c = fst (Hop_init Hop_class0 r)" and h: "h = snd (Hop_init Hop_class0 r)"
    by simp_all
  obtain g where g: "add_commands c h Map.empty = Inr g"
    unfolding c by (simp add: add_commands_init)
  have look: "g n = (if n \<in> set (cls_available_cmds c) then cmds n else None)" for n
    using g registered_lookup unfolding c by blast
  show ?thesis
    unfolding hop_run_def ch
    by (simp add: g click_run_def look c [symmetric] h [symmetric]
        split: option.split prod.split)
qed

lemma hop_process_entries:
  "hop_process bold r Hop_command line = hop_run bold r line \<and>
   hop_process bold r Script line = hop_run bold r None"
  by (simp add: hop_process_def)

subsection \<open>Commands offered in each state\<close>

text \<open>
  C1. In a checked repository in development mode that is not in production, the
  commands offered are exactly \<open>prepare\<close>, \<open>apply\<close>, \<open>release\<close> and \<open>undo\<close>:
  this is the list the class attribute receives and the set of names registered on
  the click group, and none of \<open>new\<close>, \<open>sync-package\<close>, \<open>upgrade\<close>, \<open>restore\<close>
  is registered.
\<close>

theorem development_offers_authoring:
  "checked r \<Longrightarrow> devel r \<Longrightarrow> \<not> production r \<Longrightarrow>
   cls_available_cmds (fst (Hop_init c r)) = [''prepare'', ''apply'', ''release'', ''undo''] \<and>
   offered r = Inr {''prepare'', ''apply'', ''release'', ''undo''} \<and>
   \<not> is_offered r ''new'' \<and> \<not> is_offered r ''sync-package'' \<and>
   \<not> is_offered r ''upgrade'' \<and> \<not> is_offered r ''restore''"
  by (simp add: is_offered_iff offered_eq available_cases)

theorem development_offers_authoring_witness:
  "offered (example_repo True True False) = Inr {''prepare'', ''apply'', ''release'', ''undo''} \<and>
   \<not> is_offered (example_repo True True False) ''new''"
  using development_offers_authoring [of "example_repo True True False" Hop_class0]
  by (simp add: example_repo_def)

text \<open>
  C2. In a checked repository in development mode that is in production, the commands
  offered are exactly \<open>upgrade\<close> and \<open>restore\<close>; none of the authoring commands
  \<open>prepare\<close>, \<open>apply\<close>, \<open>release\<close>, \<open>undo\<close> is registered.
\<close>

theorem production_offers_upgrade_restore:
  "checked r \<Longrightarrow> devel r \<Longrightarrow> production r \<Longrightarrow>
   cls_available_cmds (fst (Hop_init c r)) = [''upgrade'', ''restore''] \<and>
   offered r = Inr {''upgrade'', ''restore''} \<and>
   \<not> is_offered r ''prepare'' \<and> \<not> is_offered r ''apply'' \<and>
   \<not> is_offered r ''release'' \<and> \<not> is_offered r ''undo''"
  by (simp add: is_offered_iff offered_eq available_cases)

theorem production_offers_upgrade_restore_witness:
  "offered (example_repo True True True) = Inr {''upgrade'', ''restore''} \<and>
   \<not> is_offered (example_repo True True True) ''prepare''"
  using production_offers_upgrade_restore [of "example_repo True True True" Hop_class0]
  by (simp add: example_repo_def)

text \<open>
  C3. Outside a checked repository the only command offered is \<open>new\<close>; in a checked
  repository that is not in development mode (sync-only) the only command offered is
  \<open>sync-package\<close>, whatever the \<open>production\<close> flag.
\<close>

theorem unchecked_offers_new_sync_only_offers_sync_package:
  "(\<not> checked r \<longrightarrow>
      cls_available_cmds (fst (Hop_init c r)) = [''new''] \<and> offered r = Inr {''new''}) \<and>
   (checked r \<and> \<not> devel r \<longrightarrow>
      cls_available_cmds (fst (Hop_init c r)) = [''sync-package''] \<and>
      offered r = Inr {''sync-package''})"
  by (simp add: offered_eq available_cases)

theorem unchecked_offers_new_sync_only_offers_sync_package_witness:
  "offered (example_repo False True False) = Inr {''new''} \<and>
   offered (example_repo True False True) = Inr {''sync-package''}"
  using unchecked_offers_new_sync_only_offers_sync_package
          [of "example_repo False True False" Hop_class0]
        unchecked_offers_new_sync_only_offers_sync_package
          [of "example_repo True False True" Hop_class0]
  by (simp add: example_repo_def)

text \<open>
  C8. After \<open>Hop.__init__\<close> the available commands are one of the four fixed lists,
  and the names registered on the group one of the four matching sets; the list is
  never empty, and when \<open>new\<close> is offered it is the only command.
\<close>

theorem available_cmds_one_of_four:
  "cls_available_cmds (fst (Hop_init c r)) \<in>
     {[''new''], [''sync-package''], [''upgrade'', ''restore''],
      [''prepare'', ''apply'', ''release'', ''undo'']} \<and>
   offered r \<in>
     {Inr {''new''}, Inr {''sync-package''}, Inr {''upgrade'', ''restore''},
      Inr {''prepare'', ''apply'', ''release'', ''undo''}} \<and>
   cls_available_cmds (fst (Hop_init c r)) \<noteq> [] \<and>
   offered r \<noteq> Inr {} \<and>
   (is_offered r ''new'' \<longrightarrow> offered r = Inr {''new''})"
  by (simp add: is_offered_iff offered_eq available_cases)

theorem available_cmds_one_of_four_witness:
  "is_offered (example_repo False False False) ''new'' \<and>
   offered (example_repo False False False) = Inr {''new''}"
  using available_cmds_one_of_four [of Hop_class0 "example_repo False False False"]
  by (simp add: example_repo_def is_offered_iff available_cases)

subsection \<open>Classification and the class attribute\<close>

text \<open>
  C5, as stated, fails: \<open>Hop.__init__\<close> assigns the class attribute
  \<open>Hop.__available_cmds\<close>, which is empty before and holds \<open>new\<close> after the
  classification of an unchecked repository.
\<close>

theorem Hop_init_writes_class_counterexample:
  "cls_available_cmds Hop_class0 = [] \<and>
   cls_available_cmds (fst (Hop_init Hop_class0 (example_repo False False False))) = [''new''] \<and>
   fst (Hop_init Hop_class0 (example_repo False False False)) \<noteq> Hop_class0"
  by (simp add: Hop_init_def Hop_class0_def repo_checked_def example_repo_def Let_def)

text \<open>
  C5, amended. Classification is deterministic: the available commands and the object
  built depend on the \<open>Repo\<close> alone, not on what the class held before; its one
  effect on the class is to overwrite \<open>Hop.__available_cmds\<close> with that list, the
  class attribute \<open>__command\<close> and the \<open>Repo\<close> being left as they were.
\<close>

theorem classification_deterministic:
  "cls_available_cmds (fst (Hop_init c1 r)) = cls_available_cmds (fst (Hop_init c2 r)) \<and>
   snd (Hop_init c1 r) = snd (Hop_init c2 r) \<and>
   hop_repo (snd (Hop_init c1 r)) = r \<and>
   cls_command (fst (Hop_init c1 r)) = cls_command c1 \<and>
   fst (Hop_init c1 r) = c1\<lparr>cls_available_cmds := cls_available_cmds (fst (Hop_init c2 r))\<rparr>"
proof -
  have "fst (Hop_init c1 r) = c1\<lparr>cls_available_cmds := cls_available_cmds (fst (Hop_init c1 r))\<rparr>"
    by (rule Hop_init_fst)
  moreover have "cls_available_cmds (fst (Hop_init c1 r)) = cls_available_cmds (fst (Hop_init c2 r))"
    by (simp only: available_cases)
  moreover have "cls_command (fst (Hop_init c1 r)) = cls_command c1"
    by (simp add: Hop_init_def Let_def)
  ultimately show ?thesis
    by (simp add: Hop_init_snd)
qed

theorem classification_deterministic_witness:
  "cls_available_cmds (fst (Hop_init Hop_class0 (example_repo True True True))) =
     cls_available_cmds
       (fst (Hop_init (Hop_class0\<lparr>cls_available_cmds := [''new'']\<rparr>) (example_repo True True True))) \<and>
   cls_command (fst (Hop_init Hop_class0 (example_repo True True True))) = PyNone"
  using classification_deterministic
          [of Hop_class0 "example_repo True True True" "Hop_class0\<lparr>cls_available_cmds := [''new'']\<rparr>"]
  by (simp add: Hop_class0_def)

subsection \<open>Status line and exit codes\<close>

text \<open>
  C6. With no subcommand the run echoes the state of the repository first: alone in a
  checked repository, followed by the hint to \<open>hop new\<close> outside one; it ends with
  exit code 0.
\<close>

theorem no_subcommand_prints_state:
  "hop_run bold r None =
     (snd (Hop_init Hop_class0 r),
      (if checked r then [Echo (state r)] else [Echo (state r), Print (not_in_repo bold)]),
      0) \<and>
   hd (fst (snd (hop_run bold r None))) = Echo (state r)"
  by (simp add: hop_run_unfold main_def repo_checked_def Hop_state_def Hop_init_snd)

theorem no_subcommand_prints_state_witness:
  "fst (snd (hop_run id (example_repo True True False) None)) = [Echo ''[hop] demo''] \<and>
   fst (snd (hop_run id (example_repo False True False) None)) =
     [Echo ''[hop] demo'', Print (not_in_repo id)]"
  using no_subcommand_prints_state [of id "example_repo True True False"]
        no_subcommand_prints_state [of id "example_repo False True False"]
  by (simp add: example_repo_def)




text \<open>
  C9. When \<open>prepare_release\<close> returns, \<open>prepare\<close> raises \<open>SystemExit\<close> with no
  code right after it, which ends the process with code 0; every other command ends as
  its method of \<open>Repo\<close> does, so it returns to click when the method returns.
\<close>

theorem prepare_exits_others_return:
  "(behaviour (hop_repo h) (Prepare_release l m) = Return \<longrightarrow>
      prepare h l m =
        (h\<lparr>inst_command := Some (PyStr ''prepare''),
           calls := calls h @ [Prepare_release l m]\<rparr>, Raise (SystemExit None)) \<and>
      exit_code (snd (prepare h l m)) = 0) \<and>
   (f \<noteq> Prepare \<longrightarrow>
      snd (invoke f h a) = behaviour (hop_repo h) (repo_method f a) \<and>
      (behaviour (hop_repo h) (repo_method f a) = Return \<longrightarrow> snd (invoke f h a) = Return))"
  by (simp add: invoke_result prepare_def repo_call_def)

theorem prepare_exits_others_return_witness:
  "snd (prepare (snd (Hop_init Hop_class0 (example_repo True True False))) (Some Major) None) =
     Raise (SystemExit None) \<and>
   snd (invoke Apply (snd (Hop_init Hop_class0 (example_repo True True False))) example_args) =
     Return"
  using prepare_exits_others_return
          [of "snd (Hop_init Hop_class0 (example_repo True True False))" "Some Major" None
              Apply example_args]
  by (simp add: Hop_init_snd example_repo_def)

subsection \<open>The property command\<close>

text \<open>
  What each command leaves in the property \<open>command\<close>: \<open>prepare\<close>, \<open>apply\<close>,
  \<open>undo\<close> and \<open>upgrade\<close> assign it; \<open>new\<close>, \<open>release\<close>, \<open>restore\<close> and
  \<open>sync-package\<close> leave it as it was, which is \<open>None\<close> after initialization.
\<close>

lemma command_after_commands:
  "command c (fst (prepare h l m)) = PyStr ''prepare'' \<and>
   command c (fst (apply_cmd h)) = PyStr ''apply'' \<and>
   command c (fst (undo h d)) = PyStr ''undo'' \<and>
   command c (fst (upgrade h)) = PyStr ''upgrade_prod'' \<and>
   command c (fst (new h pn dv)) = command c h \<and>
   command c (fst (release h p)) = command c h \<and>
   command c (fst (restore h rel)) = command c h \<and>
   command c (fst (sync_package h)) = command c h \<and>
   command (fst (Hop_init Hop_class0 r)) (snd (Hop_init Hop_class0 r)) = PyNone"
proof -
  have cls: "cls_command (fst (Hop_init Hop_class0 r)) = PyNone"
    by (simp add: Hop_init_def Hop_class0_def Let_def)
  have "command c (fst (prepare h l m)) = PyStr ''prepare''"
    by (simp add: prepare_def repo_call_def command_def split: result.split)
  moreover have "command c (fst (apply_cmd h)) = PyStr ''apply''"
    by (simp add: apply_cmd_def repo_call_def command_def)
  moreover have "command c (fst (undo h d)) = PyStr ''undo''"
    by (simp add: undo_def repo_call_def command_def)
  moreover have "command c (fst (upgrade h)) = PyStr ''upgrade_prod''"
    by (simp add: upgrade_def repo_call_def command_def)
  ultimately show ?thesis
    by (simp add: cls Hop_init_snd command_def new_def release_def restore_def
        sync_package_def repo_call_def)
qed

text \<open>
  C10. The claim has \<open>upgrade\<close> set the property to its subcommand name, as
  \<open>prepare\<close>, \<open>apply\<close> and \<open>undo\<close> do and as the docstring of the property says
  (the command invoked, of click). The code does not: in a production repository the
  run of the registered subcommand \<open>upgrade\<close> leaves \<open>upgrade_prod\<close> in the
  property, which is the name of the method of \<open>Repo\<close> and not of the subcommand.
\<close>

theorem upgrade_sets_upgrade_prod:
  "is_offered (example_repo True True True) ''upgrade'' \<and>
   cmds ''upgrade'' = Some Upgrade \<and>
   click_name Upgrade = ''upgrade'' \<and>
   command (fst (Hop_init Hop_class0 (example_repo True True True)))
     (fst (hop_run id (example_repo True True True) (Some (''upgrade'', example_args)))) =
     PyStr ''upgrade_prod'' \<and>
   command (fst (Hop_init Hop_class0 (example_repo True True True)))
     (fst (hop_run id (example_repo True True True) (Some (''upgrade'', example_args)))) \<noteq>
     PyStr (click_name Upgrade)"
proof -
  have av: "is_offered (example_repo True True True) ''upgrade''"
    by (simp add: is_offered_iff available_cases example_repo_def)
  have run: "fst (hop_run id (example_repo True True True) (Some (''upgrade'', example_args))) =
      fst (upgrade (snd (Hop_init Hop_class0 (example_repo True True True))))"
    using av by (simp add: hop_run_unfold is_offered_iff cmds_def)
  show ?thesis
    unfolding run
    by (simp add: av cmds_def upgrade_def repo_call_def command_def)
qed

end
